theory Spec2Isabelle
  imports Main "HOL-Library.Word"
begin

section \<open>The credential upload page (src/pages/CredentialUpload.jsx)\<close>

text \<open>
  The component keeps its state in React hooks and has two asynchronous event handlers,
  \<^verbatim>\<open>handleFileChange\<close> and \<open>handleSubmit\<close>. A handler run is modelled as a function from
  the state of the component at the call to the state when the handler is done, together
  with the list of effects it performed, in program order. The services the handlers call
  (the storage client, the contract client, the hashing library, the clock) are fields of
  an environment record.

  The run of a handler is taken on its own: no other event handler of the page changes the
  state between the call and the end of the run.
\<close>

subsection \<open>Component state\<close>

text \<open>The object held by \<^verbatim>\<open>useState\<close> for the form, with its six string fields.\<close>

record form_data =
  studentAddress :: string
  studentName :: string
  credentialType :: string
  institution :: string
  imageHash :: string
  imageUrl :: string

text \<open>
  The five state hooks of the component. \<open>imagePreview\<close> starts as \<^verbatim>\<open>null\<close> and holds a
  data URL otherwise.
\<close>

record ui_state =
  step :: nat
  uploading :: bool
  imagePreview :: "string option"
  formData :: form_data
  isBlockchainUploading :: bool
  isSubmitting :: bool

subsection \<open>Values exchanged with the services\<close>

text \<open>
  An awaited promise is fulfilled with a value, rejected with an error (of which the
  handlers read the \<^verbatim>\<open>message\<close> only), or never settles.
\<close>

datatype 'a outcome = Resolved 'a | Rejected string | Pending

text \<open>The fields of a browser \<^verbatim>\<open>File\<close>: name, MIME type and size in bytes.\<close>

record js_file =
  file_name :: string
  file_type :: string
  file_size :: nat

text \<open>The object literal built at the start of the submission sequence.\<close>

record metadata =
  md_studentName :: string
  md_studentAddress :: string
  md_credentialType :: string
  md_institution :: string
  md_issuerAddress :: string
  md_imageHash :: string
  md_imageUrl :: string
  md_issueDate :: string

text \<open>The transaction handle returned by the contract call; \<open>wait\<close> is what \<^verbatim>\<open>tx.wait()\<close> settles to.\<close>

record tx =
  tx_hash :: string
  wait :: "string outcome"

text \<open>
  The contract client. The arguments of \<open>issueCredential\<close> are, in order, the four positional
  arguments of the call and the \<^verbatim>\<open>from\<close> field of the options object.
\<close>

record contract =
  issueCredential :: "string \<Rightarrow> string \<Rightarrow> string \<Rightarrow> string \<Rightarrow> string \<Rightarrow> tx outcome"

text \<open>
  What the component reads from outside itself: \<open>account\<close> and \<open>contract\<close> from
  \<^verbatim>\<open>useWeb3()\<close> (both may be absent), the two calls of \<^verbatim>\<open>ipfsService\<close>,
  \<^verbatim>\<open>JSON.stringify\<close>, \<^verbatim>\<open>ethers.toUtf8Bytes\<close>, \<^verbatim>\<open>ethers.keccak256\<close>, the ISO string of the
  current date, and the \<^verbatim>\<open>FileReader\<close>: \<open>readerLoadEnd f = Some r\<close> when \<^verbatim>\<open>onloadend\<close> fires,
  with \<^verbatim>\<open>reader.result\<close> equal to \<open>r\<close>, while the upload of \<open>f\<close> is awaited, and \<open>None\<close> when it
  has not fired by the time the handler resumes.
\<close>

record env =
  account :: "string option"
  contract :: "contract option"
  uploadImage :: "js_file \<Rightarrow> (string \<times> string) outcome"
  uploadJSON :: "metadata \<Rightarrow> string outcome"
  JSON_stringify :: "metadata \<Rightarrow> string"
  toUtf8Bytes :: "string \<Rightarrow> 8 word list"
  keccak256 :: "8 word list \<Rightarrow> string"
  now_iso :: string
  readerLoadEnd :: "js_file \<Rightarrow> string option option"

subsection \<open>Effects\<close>

text \<open>
  The effects of a handler that leave the component. \<open>ToastLoading\<close>, \<open>ToastSuccess\<close> and
  \<open>ToastFailure\<close> are the three notifications of \<^verbatim>\<open>toast.promise\<close>; \<open>ToastError\<close> is
  \<^verbatim>\<open>toast.error\<close>.
\<close>

datatype event =
    PreventDefault
  | Alert string
  | ConsoleError string string
  | ToastError string
  | ToastLoading string
  | ToastSuccess string
  | ToastFailure string
  | ReadAsDataURL js_file
  | UploadImage js_file
  | UploadJSON metadata
  | IssueCredential string string string string string
  | TxWait tx

text \<open>
  The result of a handler run: the state it leaves, its effects, and whether the handler ran
  to its end (\<open>returned = False\<close>: it is suspended for ever at an \<^verbatim>\<open>await\<close> whose promise
  never settles).
\<close>

record run =
  ui :: ui_state
  trace :: "event list"
  returned :: bool

subsection \<open>handleFileChange\<close>

definition validTypes :: "string list" where
  "validTypes =
     [''image/jpeg'', ''image/png'', ''image/gif'', ''application/pdf'',
      ''application/vnd.openxmlformats-officedocument.wordprocessingml.document'']"

definition startsWith :: "string \<Rightarrow> string \<Rightarrow> bool" where
  "startsWith s p = (take (length p) s = p)"

text \<open>The \<^verbatim>\<open>onloadend\<close> callback of the reader, when it fires during the upload.\<close>

definition reader_onloadend :: "env \<Rightarrow> js_file \<Rightarrow> ui_state \<Rightarrow> ui_state" where
  "reader_onloadend e f s =
     (if startsWith (file_type f) ''image/''
      then (case readerLoadEnd e f of None \<Rightarrow> s | Some r \<Rightarrow> s\<lparr>imagePreview := r\<rparr>)
      else s)"

text \<open>
  The handler of the file input; the argument is \<^verbatim>\<open>e.target.files[0]\<close>, absent when no file
  was chosen. The type check comes first and is the only check; then the preview is
  prepared, the file is uploaded, and the form receives the hash and the URL. A rejected
  upload is caught and logged; \<^verbatim>\<open>finally\<close> resets the flag on both paths.
\<close>

definition handleFileChange :: "env \<Rightarrow> js_file option \<Rightarrow> ui_state \<Rightarrow> run" where
  "handleFileChange e fo s =
     (case fo of
        None \<Rightarrow> \<lparr>ui = s, trace = [], returned = True\<rparr>
      | Some f \<Rightarrow>
          if file_type f \<notin> set validTypes
          then \<lparr>ui = s,
                trace = [Alert ''Please upload an image (JPEG, PNG, GIF), PDF, or DOCX file''],
                returned = True\<rparr>
          else
            let s1 = s\<lparr>uploading := True\<rparr>;
                s2 = (if startsWith (file_type f) ''image/'' then s1
                      else s1\<lparr>imagePreview := None\<rparr>);
                t2 = (if startsWith (file_type f) ''image/'' then [ReadAsDataURL f] else [])
                     @ [UploadImage f];
                s3 = reader_onloadend e f s2
            in (case uploadImage e f of
                  Pending \<Rightarrow> \<lparr>ui = s3, trace = t2, returned = False\<rparr>
                | Resolved hu \<Rightarrow>
                    \<lparr>ui = s3\<lparr>formData := (formData s3)\<lparr>imageHash := fst hu, imageUrl := snd hu\<rparr>,
                              uploading := False\<rparr>,
                     trace = t2, returned = True\<rparr>
                | Rejected msg \<Rightarrow>
                    \<lparr>ui = s3\<lparr>imagePreview := None, uploading := False\<rparr>,
                     trace = t2 @ [ConsoleError ''File upload failed:'' msg],
                     returned = True\<rparr>))"

subsection \<open>handleSubmit\<close>

text \<open>The metadata object of a submission by the connected account \<open>acct\<close>.\<close>

definition metadata_of :: "env \<Rightarrow> string \<Rightarrow> ui_state \<Rightarrow> metadata" where
  "metadata_of e acct s =
     \<lparr>md_studentName = studentName (formData s),
      md_studentAddress = studentAddress (formData s),
      md_credentialType = credentialType (formData s),
      md_institution = institution (formData s),
      md_issuerAddress = acct,
      md_imageHash = imageHash (formData s),
      md_imageUrl = imageUrl (formData s),
      md_issueDate = now_iso e\<rparr>"

text \<open>\<^verbatim>\<open>ethers.keccak256(ethers.toUtf8Bytes(JSON.stringify(metadata)))\<close>\<close>

definition certificateHash :: "env \<Rightarrow> metadata \<Rightarrow> string" where
  "certificateHash e md = keccak256 e (toUtf8Bytes e (JSON_stringify e md))"

text \<open>The contract call of the handler, on the storage hash \<open>mh\<close> of the metadata.\<close>

definition contract_call :: "env \<Rightarrow> contract \<Rightarrow> string \<Rightarrow> ui_state \<Rightarrow> string \<Rightarrow> tx outcome" where
  "contract_call e c acct s mh =
     issueCredential c (studentAddress (formData s)) (certificateHash e (metadata_of e acct s))
       (imageHash (formData s)) mh acct"

definition contract_call_event :: "env \<Rightarrow> string \<Rightarrow> ui_state \<Rightarrow> string \<Rightarrow> event" where
  "contract_call_event e acct s mh =
     IssueCredential (studentAddress (formData s)) (certificateHash e (metadata_of e acct s))
       (imageHash (formData s)) mh acct"

text \<open>The \<^verbatim>\<open>finally\<close> block.\<close>

definition finally_block :: "ui_state \<Rightarrow> ui_state" where
  "finally_block s = s\<lparr>isSubmitting := False, uploading := False, isBlockchainUploading := False\<rparr>"

text \<open>
  The \<^verbatim>\<open>catch\<close> block followed by \<^verbatim>\<open>finally\<close>, for an awaited promise rejected with message
  \<open>msg\<close> whose \<^verbatim>\<open>toast.promise\<close> error text is \<open>failure\<close>. The rejection reaches the
  handler one microtask before it reaches the \<^verbatim>\<open>catch\<close> that \<^verbatim>\<open>toast.promise\<close> chained
  behind its own \<^verbatim>\<open>then\<close>, so the notification of \<^verbatim>\<open>toast.promise\<close> comes last.
\<close>

definition catch_finally :: "ui_state \<Rightarrow> event list \<Rightarrow> string \<Rightarrow> string \<Rightarrow> run" where
  "catch_finally s t failure msg =
     \<lparr>ui = finally_block s,
      trace = t @ [ConsoleError ''Error uploading credential:'' msg,
                   ToastError (''Failed to issue credential: '' @ msg),
                   ToastFailure failure],
      returned = True\<rparr>"

text \<open>The body of the handler from \<^verbatim>\<open>setIsSubmitting(true)\<close> on.\<close>

definition submit_sequence :: "env \<Rightarrow> string \<Rightarrow> contract \<Rightarrow> ui_state \<Rightarrow> run" where
  "submit_sequence e acct c s =
     (let s1 = s\<lparr>isSubmitting := True, uploading := True, isBlockchainUploading := True\<rparr>;
          md = metadata_of e acct s;
          t0 = [PreventDefault, UploadJSON md, ToastLoading ''Uploading metadata...'']
      in (case uploadJSON e md of
            Pending \<Rightarrow> \<lparr>ui = s1, trace = t0, returned = False\<rparr>
          | Rejected msg \<Rightarrow> catch_finally s1 t0 ''Failed to upload metadata'' msg
          | Resolved mh \<Rightarrow>
              (let t1 = t0 @ [ToastSuccess ''Metadata uploaded successfully'',
                              contract_call_event e acct s mh,
                              ToastLoading ''Confirming transaction...'']
               in (case contract_call e c acct s mh of
                     Pending \<Rightarrow> \<lparr>ui = s1, trace = t1, returned = False\<rparr>
                   | Rejected msg \<Rightarrow> catch_finally s1 t1 ''Transaction failed'' msg
                   | Resolved t \<Rightarrow>
                       (let t2 = t1 @ [ToastSuccess ''Transaction sent successfully'',
                                       TxWait t,
                                       ToastLoading ''Waiting for blockchain confirmation...'']
                        in (case wait t of
                              Pending \<Rightarrow> \<lparr>ui = s1, trace = t2, returned = False\<rparr>
                            | Rejected msg \<Rightarrow> catch_finally s1 t2 ''Transaction failed'' msg
                            | Resolved receipt \<Rightarrow>
                                \<lparr>ui = finally_block (s1\<lparr>step := 2\<rparr>),
                                 trace = t2 @ [ToastSuccess ''Credential issued successfully!''],
                                 returned = True\<rparr>))))))"

text \<open>
  The handler of the form: the in-flight guard, the three checks with their notifications
  (an empty string is falsy, for the hash and for the account alike), then the sequence.
\<close>

definition handleSubmit :: "env \<Rightarrow> ui_state \<Rightarrow> run" where
  "handleSubmit e s =
     (if isSubmitting s then \<lparr>ui = s, trace = [PreventDefault], returned = True\<rparr>
      else if imageHash (formData s) = []
      then \<lparr>ui = s,
            trace = [PreventDefault, ToastError ''Please upload a certificate file first''],
            returned = True\<rparr>
      else (case account e of
              None \<Rightarrow> \<lparr>ui = s,
                       trace = [PreventDefault, ToastError ''Please connect your wallet first''],
                       returned = True\<rparr>
            | Some acct \<Rightarrow>
                if acct = []
                then \<lparr>ui = s,
                      trace = [PreventDefault, ToastError ''Please connect your wallet first''],
                      returned = True\<rparr>
                else (case contract e of
                        None \<Rightarrow> \<lparr>ui = s,
                                 trace = [PreventDefault, ToastError ''Contract not initialized''],
                                 returned = True\<rparr>
                      | Some c \<Rightarrow> submit_sequence e acct c s)))"

subsection \<open>Observations on a trace\<close>

fun is_contract_call :: "event \<Rightarrow> bool" where
  "is_contract_call (IssueCredential a h f m frm) = True"
| "is_contract_call _ = False"

text \<open>The calls that leave the browser: the storage client and the contract client.\<close>

fun is_external_call :: "event \<Rightarrow> bool" where
  "is_external_call (UploadImage f) = True"
| "is_external_call (UploadJSON md) = True"
| "is_external_call (IssueCredential a h f m frm) = True"
| "is_external_call (TxWait t) = True"
| "is_external_call _ = False"

text \<open>The notifications that report a failure to the user.\<close>

fun is_error_notification :: "event \<Rightarrow> bool" where
  "is_error_notification (Alert m) = True"
| "is_error_notification (ToastError m) = True"
| "is_error_notification (ToastFailure m) = True"
| "is_error_notification _ = False"

subsection \<open>The steps of the submission sequence\<close>

text \<open>The three awaited operations of the sequence, in the order the handler awaits them.\<close>

datatype sub_step = MetadataUpload | ContractCall | ConfirmationWait

text \<open>
  The first awaited operation that is rejected, with the message of its error, read off
  the services in the order of the handler; \<open>None\<close> when no operation is reached that
  rejects.
\<close>

definition failing_step :: "env \<Rightarrow> string \<Rightarrow> contract \<Rightarrow> ui_state \<Rightarrow> (sub_step \<times> string) option" where
  "failing_step e acct c s =
     (case uploadJSON e (metadata_of e acct s) of
        Rejected m \<Rightarrow> Some (MetadataUpload, m)
      | Pending \<Rightarrow> None
      | Resolved mh \<Rightarrow>
          (case contract_call e c acct s mh of
             Rejected m \<Rightarrow> Some (ContractCall, m)
           | Pending \<Rightarrow> None
           | Resolved t \<Rightarrow>
               (case wait t of
                  Rejected m \<Rightarrow> Some (ConfirmationWait, m)
                | Pending \<Rightarrow> None
                | Resolved receipt \<Rightarrow> None)))"

text \<open>The \<^verbatim>\<open>error\<close> text given to \<^verbatim>\<open>toast.promise\<close> at each of the three steps.\<close>

fun step_failure_text :: "sub_step \<Rightarrow> string" where
  "step_failure_text MetadataUpload = ''Failed to upload metadata''"
| "step_failure_text ContractCall = ''Transaction failed''"
| "step_failure_text ConfirmationWait = ''Transaction failed''"

fun is_step_call :: "sub_step \<Rightarrow> event \<Rightarrow> bool" where
  "is_step_call MetadataUpload (UploadJSON md) = True"
| "is_step_call ContractCall (IssueCredential a h f m frm) = True"
| "is_step_call ConfirmationWait (TxWait t) = True"
| "is_step_call _ _ = False"

fun later_steps :: "sub_step \<Rightarrow> sub_step list" where
  "later_steps MetadataUpload = [ContractCall, ConfirmationWait]"
| "later_steps ContractCall = [ConfirmationWait]"
| "later_steps ConfirmationWait = []"

subsection \<open>Sample inputs\<close>

text \<open>
  A filled form with an uploaded file, a connected wallet and services that all succeed.
  The three hashing functions are stand-ins: every property below is proved for arbitrary
  ones, and the samples only instantiate the properties.
\<close>

definition sample_form :: form_data where
  "sample_form =
     \<lparr>studentAddress = ''0xA1'', studentName = ''Ada'', credentialType = ''degree'',
      institution = ''MIT'', imageHash = ''QmFile'', imageUrl = ''ipfs://QmFile''\<rparr>"

definition sample_state :: ui_state where
  "sample_state =
     \<lparr>step = 1, uploading = False, imagePreview = None, formData = sample_form,
      isBlockchainUploading = False, isSubmitting = False\<rparr>"

definition sample_tx :: tx where
  "sample_tx = \<lparr>tx_hash = ''0xT'', wait = Resolved ''receipt''\<rparr>"

definition sample_contract :: contract where
  "sample_contract = \<lparr>issueCredential = (\<lambda>a h f m frm. Resolved sample_tx)\<rparr>"

definition sample_env :: env where
  "sample_env =
     \<lparr>account = Some ''0xI'', contract = Some sample_contract,
      uploadImage = (\<lambda>f. Resolved (''QmNew'', ''ipfs://QmNew'')),
      uploadJSON = (\<lambda>m. Resolved ''QmMeta''),
      JSON_stringify = (\<lambda>m. md_studentName m @ md_issueDate m),
      toUtf8Bytes = map (\<lambda>c. of_nat (of_char c)),
      keccak256 = (\<lambda>bs. ''0x'' @ replicate (length bs) CHR ''0''),
      now_iso = ''2024'',
      readerLoadEnd = (\<lambda>f. None)\<rparr>"

text \<open>A PNG image of 20 MiB and a plain text file.\<close>

definition sample_png :: js_file where
  "sample_png = \<lparr>file_name = ''big.png'', file_type = ''image/png'', file_size = 20971520\<rparr>"

definition sample_txt :: js_file where
  "sample_txt = \<lparr>file_name = ''notes.txt'', file_type = ''text/plain'', file_size = 12\<rparr>"

text \<open>The sample state while a submission is in flight, the file removed meanwhile.\<close>

definition in_flight_no_file :: ui_state where
  "in_flight_no_file =
     sample_state\<lparr>formData := sample_form\<lparr>imageHash := [], imageUrl := []\<rparr>,
                  uploading := True, isBlockchainUploading := True, isSubmitting := True\<rparr>"


text \<open>Contracts whose call is rejected, and whose transaction is dropped after the call.\<close>

definition rejecting_contract :: contract where
  "rejecting_contract = \<lparr>issueCredential = (\<lambda>a h f m frm. Rejected ''boom'')\<rparr>"

definition dropping_contract :: contract where
  "dropping_contract =
     \<lparr>issueCredential = (\<lambda>a h f m frm. Resolved \<lparr>tx_hash = ''0xT'', wait = Rejected ''boom''\<rparr>)\<rparr>"

text \<open>The sample services with a wallet whose prompt is never answered: the call never settles.\<close>

definition silent_contract :: contract where
  "silent_contract = \<lparr>issueCredential = (\<lambda>a h f m frm. Pending)\<rparr>"

definition stalled_env :: env where
  "stalled_env = sample_env\<lparr>contract := Some silent_contract\<rparr>"

section \<open>Properties\<close>

subsection \<open>Auxiliary facts\<close>

lemmas sequence_defs = submit_sequence_def catch_finally_def contract_call_event_def
  finally_block_def Let_def

lemma sample_env_fields:
  "account sample_env = Some ''0xI''"
  "contract sample_env = Some sample_contract"
  "uploadJSON sample_env = (\<lambda>m. Resolved ''QmMeta'')"
  "uploadImage sample_env = (\<lambda>f. Resolved (''QmNew'', ''ipfs://QmNew''))"
  "now_iso sample_env = ''2024''"
  "readerLoadEnd sample_env = (\<lambda>f. None)"
  by (simp_all add: sample_env_def)

lemmas sample_defs = sample_env_fields sample_state_def sample_form_def sample_contract_def
  sample_tx_def

lemma handleSubmit_guard:
  "isSubmitting s \<Longrightarrow> handleSubmit e s = \<lparr>ui = s, trace = [PreventDefault], returned = True\<rparr>"
  by (simp add: handleSubmit_def)

lemma handleSubmit_enters:
  "\<not> isSubmitting s \<Longrightarrow> imageHash (formData s) \<noteq> [] \<Longrightarrow> account e = Some acct \<Longrightarrow>
   acct \<noteq> [] \<Longrightarrow> contract e = Some c \<Longrightarrow> handleSubmit e s = submit_sequence e acct c s"
  by (simp add: handleSubmit_def)

lemma handleSubmit_cases:
  "handleSubmit e s = \<lparr>ui = s, trace = [PreventDefault], returned = True\<rparr>
   \<or> (\<exists>msg. handleSubmit e s = \<lparr>ui = s, trace = [PreventDefault, ToastError msg], returned = True\<rparr>)
   \<or> (\<exists>acct c. handleSubmit e s = submit_sequence e acct c s)"
  by (auto simp: handleSubmit_def split: option.splits)

lemma submit_sequence_suspended:
  "\<not> returned (submit_sequence e acct c s) \<Longrightarrow> isSubmitting (ui (submit_sequence e acct c s))"
  by (auto simp: sequence_defs split: outcome.splits)

lemma submit_sequence_one_call:
  "length (filter is_contract_call (trace (submit_sequence e acct c s))) \<le> 1"
  by (auto simp: sequence_defs split: outcome.splits)



lemma submit_sequence_failure_calls:
  "failing_step e acct c s = Some (k, msg) \<Longrightarrow> k' \<in> set (later_steps k) \<Longrightarrow>
     filter (is_step_call k') (trace (submit_sequence e acct c s)) = []"
  by (cases k; cases k')
     (auto simp: sequence_defs failing_step_def contract_call_def split: outcome.splits)

lemma submit_sequence_failure_errors:
  "failing_step e acct c s = Some (k, msg) \<Longrightarrow>
     filter is_error_notification (trace (submit_sequence e acct c s)) =
       [ToastError (''Failed to issue credential: '' @ msg), ToastFailure (step_failure_text k)]"
  by (cases k)
     (auto simp: sequence_defs failing_step_def contract_call_def split: outcome.splits)

lemma submit_sequence_failure_state:
  "failing_step e acct c s = Some (k, msg) \<Longrightarrow>
     ui (submit_sequence e acct c s) =
       s\<lparr>isSubmitting := False, uploading := False, isBlockchainUploading := False\<rparr>
     \<and> returned (submit_sequence e acct c s)"
  by (auto simp: sequence_defs failing_step_def contract_call_def split: outcome.splits)

lemma sample_run:
  "handleSubmit sample_env sample_state =
     \<lparr>ui = sample_state\<lparr>step := 2\<rparr>,
      trace =
        [PreventDefault,
         UploadJSON (metadata_of sample_env ''0xI'' sample_state),
         ToastLoading ''Uploading metadata...'',
         ToastSuccess ''Metadata uploaded successfully'',
         IssueCredential ''0xA1''
           (certificateHash sample_env (metadata_of sample_env ''0xI'' sample_state))
           ''QmFile'' ''QmMeta'' ''0xI'',
         ToastLoading ''Confirming transaction...'',
         ToastSuccess ''Transaction sent successfully'',
         TxWait sample_tx,
         ToastLoading ''Waiting for blockchain confirmation...'',
         ToastSuccess ''Credential issued successfully!''],
      returned = True\<rparr>"
  by (simp add: handleSubmit_def sequence_defs sample_defs contract_call_def)

subsection \<open>The claims\<close>

text \<open>
  C1. In every run of the submission handler, the contract's \<open>issueCredential\<close> is invoked
  only after both uploads have succeeded: whenever the call occurs in the run, the form
  held a non-empty file hash, which is the file hash passed to the contract, and before the
  call the metadata document was handed to \<open>uploadJSON\<close>, which resolved with the very
  metadata hash passed to the contract.
\<close>

theorem issueCredential_after_uploads:
  "IssueCredential a h f mh frm \<in> set (trace (handleSubmit e s)) \<Longrightarrow>
     imageHash (formData s) \<noteq> [] \<and> f = imageHash (formData s) \<and>
     (\<exists>md. UploadJSON md \<in> set (takeWhile (\<lambda>x. \<not> is_contract_call x) (trace (handleSubmit e s)))
           \<and> uploadJSON e md = Resolved mh)"
  by (auto simp: handleSubmit_def sequence_defs split: if_splits option.splits outcome.splits)

text \<open>C1 at the sample submission, in which the call does occur.\<close>

theorem issueCredential_after_uploads_witness:
  "IssueCredential ''0xA1'' (certificateHash sample_env (metadata_of sample_env ''0xI'' sample_state))
      ''QmFile'' ''QmMeta'' ''0xI'' \<in> set (trace (handleSubmit sample_env sample_state))
   \<and> imageHash (formData sample_state) \<noteq> []
   \<and> (\<exists>md. UploadJSON md \<in> set (takeWhile (\<lambda>x. \<not> is_contract_call x)
                                    (trace (handleSubmit sample_env sample_state)))
           \<and> uploadJSON sample_env md = Resolved ''QmMeta'')"
proof -
  have called: "IssueCredential ''0xA1''
      (certificateHash sample_env (metadata_of sample_env ''0xI'' sample_state))
      ''QmFile'' ''QmMeta'' ''0xI'' \<in> set (trace (handleSubmit sample_env sample_state))"
    by (simp add: sample_run)
  from issueCredential_after_uploads [OF called] called show ?thesis
    by simp
qed

text \<open>
  C2, as the code has it. For every submission attempt made while no submission is in
  flight: if the file hash of the form is empty, or no account is connected, or no contract
  client is available, the handler issues no upload and no contract call, shows one error
  notification, and returns with the state untouched, without entering the sequence.
\<close>

theorem handleSubmit_blocked:
  "\<not> isSubmitting s \<Longrightarrow>
   imageHash (formData s) = [] \<or> account e = None \<or> account e = Some [] \<or> contract e = None \<Longrightarrow>
   (\<exists>msg. handleSubmit e s = \<lparr>ui = s, trace = [PreventDefault, ToastError msg], returned = True\<rparr>)
   \<and> filter is_external_call (trace (handleSubmit e s)) = []"
  by (auto simp: handleSubmit_def split: option.splits)

text \<open>C2 amended, at the sample form with no wallet connected.\<close>

theorem handleSubmit_blocked_witness:
  "\<not> isSubmitting sample_state \<and> account (sample_env\<lparr>account := None\<rparr>) = None
   \<and> (\<exists>msg. handleSubmit (sample_env\<lparr>account := None\<rparr>) sample_state =
          \<lparr>ui = sample_state, trace = [PreventDefault, ToastError msg], returned = True\<rparr>)
   \<and> filter is_external_call (trace (handleSubmit (sample_env\<lparr>account := None\<rparr>) sample_state)) = []"
proof -
  have idle: "\<not> isSubmitting sample_state"
    by (simp add: sample_state_def)
  have absent: "imageHash (formData sample_state) = [] \<or> account (sample_env\<lparr>account := None\<rparr>) = None
      \<or> account (sample_env\<lparr>account := None\<rparr>) = Some [] \<or> contract (sample_env\<lparr>account := None\<rparr>) = None"
    by simp
  from handleSubmit_blocked [OF idle absent] idle show ?thesis
    by simp
qed

text \<open>
  C2 as stated fails while a submission is in flight: with the file hash empty, the handler
  returns at the in-flight guard and shows no notification at all.
\<close>

theorem handleSubmit_blocked_counterexample:
  "imageHash (formData in_flight_no_file) = []
   \<and> trace (handleSubmit sample_env in_flight_no_file) = [PreventDefault]
   \<and> filter is_error_notification (trace (handleSubmit sample_env in_flight_no_file)) = []"
  by (simp add: handleSubmit_def in_flight_no_file_def sample_state_def)

text \<open>
  C3, as the code has it. When a step of a submission (metadata upload, contract call or
  confirmation wait) is rejected, no later step is called; the user is shown the error text
  of \<open>toast.promise\<close> for that step, which is the same text for the contract call and the
  confirmation wait, and the general notification with the message of the error; the step of
  the wizard, the form fields with the file hash, and the preview are as before the
  submission, the three in-flight flags are cleared, and the handler has returned.
\<close>

theorem handleSubmit_failure:
  assumes "\<not> isSubmitting s" and "imageHash (formData s) \<noteq> []"
    and "account e = Some acct" and "acct \<noteq> []" and "contract e = Some c"
    and "failing_step e acct c s = Some (k, msg)"
  shows "(\<forall>k' \<in> set (later_steps k). filter (is_step_call k') (trace (handleSubmit e s)) = [])
    \<and> filter is_error_notification (trace (handleSubmit e s)) =
        [ToastError (''Failed to issue credential: '' @ msg), ToastFailure (step_failure_text k)]
    \<and> step (ui (handleSubmit e s)) = step s
    \<and> formData (ui (handleSubmit e s)) = formData s
    \<and> imagePreview (ui (handleSubmit e s)) = imagePreview s
    \<and> \<not> isSubmitting (ui (handleSubmit e s))
    \<and> \<not> uploading (ui (handleSubmit e s))
    \<and> \<not> isBlockchainUploading (ui (handleSubmit e s))
    \<and> returned (handleSubmit e s)"
proof -
  have enters: "handleSubmit e s = submit_sequence e acct c s"
    using assms by (simp add: handleSubmit_enters)
  show ?thesis
    unfolding enters
    using submit_sequence_failure_calls [OF assms(6)] submit_sequence_failure_errors [OF assms(6)]
      submit_sequence_failure_state [OF assms(6)]
    by simp
qed

text \<open>C3 amended, at the sample submission with a storage client that rejects the metadata.\<close>

theorem handleSubmit_failure_witness:
  "failing_step (sample_env\<lparr>uploadJSON := (\<lambda>m. Rejected ''offline'')\<rparr>) ''0xI'' sample_contract
      sample_state = Some (MetadataUpload, ''offline'')
   \<and> filter is_external_call
        (trace (handleSubmit (sample_env\<lparr>uploadJSON := (\<lambda>m. Rejected ''offline'')\<rparr>) sample_state)) =
        [UploadJSON (metadata_of sample_env ''0xI'' sample_state)]
   \<and> filter is_error_notification
        (trace (handleSubmit (sample_env\<lparr>uploadJSON := (\<lambda>m. Rejected ''offline'')\<rparr>) sample_state)) =
        [ToastError ''Failed to issue credential: offline'', ToastFailure ''Failed to upload metadata'']
   \<and> ui (handleSubmit (sample_env\<lparr>uploadJSON := (\<lambda>m. Rejected ''offline'')\<rparr>) sample_state) =
        sample_state"
proof -
  let ?e = "sample_env\<lparr>uploadJSON := (\<lambda>m. Rejected ''offline'')\<rparr>"
  have idle: "\<not> isSubmitting sample_state" and has_file: "imageHash (formData sample_state) \<noteq> []"
    by (simp_all add: sample_state_def sample_form_def)
  have wallet: "account ?e = Some ''0xI''" and client: "contract ?e = Some sample_contract"
    by (simp_all add: sample_env_fields)
  have addr: "''0xI'' \<noteq> []"
    by simp
  have fails: "failing_step ?e ''0xI'' sample_contract sample_state = Some (MetadataUpload, ''offline'')"
    by (simp add: failing_step_def)
  have calls: "filter is_external_call (trace (handleSubmit ?e sample_state)) =
      [UploadJSON (metadata_of sample_env ''0xI'' sample_state)]"
    by (simp add: handleSubmit_def sequence_defs sample_defs metadata_of_def)
  have state: "ui (handleSubmit ?e sample_state) = sample_state"
    by (simp add: handleSubmit_def sequence_defs sample_defs)
  from handleSubmit_failure [OF idle has_file wallet addr client fails] fails calls state
  show ?thesis
    by simp
qed

text \<open>
  C3 as stated fails on the step name: a rejected contract call and a rejected confirmation
  wait, with the same error message, show the user exactly the same errors.
\<close>

theorem handleSubmit_failure_counterexample:
  "failing_step (sample_env\<lparr>contract := Some rejecting_contract\<rparr>) ''0xI'' rejecting_contract
      sample_state = Some (ContractCall, ''boom'')
   \<and> failing_step (sample_env\<lparr>contract := Some dropping_contract\<rparr>) ''0xI'' dropping_contract
      sample_state = Some (ConfirmationWait, ''boom'')
   \<and> filter is_error_notification
        (trace (handleSubmit (sample_env\<lparr>contract := Some rejecting_contract\<rparr>) sample_state)) =
        [ToastError ''Failed to issue credential: boom'', ToastFailure ''Transaction failed'']
   \<and> filter is_error_notification
        (trace (handleSubmit (sample_env\<lparr>contract := Some dropping_contract\<rparr>) sample_state)) =
        [ToastError ''Failed to issue credential: boom'', ToastFailure ''Transaction failed'']"
  by (simp add: failing_step_def contract_call_def handleSubmit_def sequence_defs sample_defs
      rejecting_contract_def dropping_contract_def)

text \<open>
  C7. A file whose MIME type is not one of the five accepted types is rejected by the
  file-change handler with a message to the user, before any call to the storage client:
  the run consists of the alert alone and leaves the state of the component as it was.
\<close>

theorem handleFileChange_rejects_type:
  "file_type f \<notin> set validTypes \<Longrightarrow>
     handleFileChange e (Some f) s =
       \<lparr>ui = s,
        trace = [Alert ''Please upload an image (JPEG, PNG, GIF), PDF, or DOCX file''],
        returned = True\<rparr>
     \<and> filter is_external_call (trace (handleFileChange e (Some f) s)) = []"
  by (simp add: handleFileChange_def)

text \<open>C7 at the plain text file: the alert is the whole run.\<close>

theorem handleFileChange_rejects_type_witness:
  "file_type sample_txt \<notin> set validTypes
   \<and> handleFileChange sample_env (Some sample_txt) sample_state =
       \<lparr>ui = sample_state,
        trace = [Alert ''Please upload an image (JPEG, PNG, GIF), PDF, or DOCX file''],
        returned = True\<rparr>
   \<and> filter is_external_call (trace (handleFileChange sample_env (Some sample_txt) sample_state)) = []"
proof -
  have other: "file_type sample_txt \<notin> set validTypes"
    by (simp add: sample_txt_def validTypes_def)
  from handleFileChange_rejects_type [OF other] other show ?thesis
    by simp
qed

text \<open>
  C4. While a submission is in flight (the \<open>isSubmitting\<close> flag is set), an invocation of
  the handler is a no-op: it returns at once, with no upload, no contract call and the state
  as it was. A run suspended at an \<open>await\<close> leaves the flag set, so a second invocation
  on the state it leaves is this no-op; and no run issues more than one contract call.
\<close>

theorem handleSubmit_in_flight_noop:
  "(isSubmitting s \<longrightarrow> handleSubmit e s = \<lparr>ui = s, trace = [PreventDefault], returned = True\<rparr>)
   \<and> (\<not> returned (handleSubmit e s) \<longrightarrow>
        handleSubmit e' (ui (handleSubmit e s)) =
          \<lparr>ui = ui (handleSubmit e s), trace = [PreventDefault], returned = True\<rparr>)
   \<and> length (filter is_contract_call (trace (handleSubmit e s))) \<le> 1"
proof (intro conjI impI)
  assume "isSubmitting s"
  then show "handleSubmit e s = \<lparr>ui = s, trace = [PreventDefault], returned = True\<rparr>"
    by (rule handleSubmit_guard)
next
  assume suspended: "\<not> returned (handleSubmit e s)"
  from handleSubmit_cases [of e s] suspended obtain acct c
    where "handleSubmit e s = submit_sequence e acct c s"
    by auto
  with suspended have "isSubmitting (ui (handleSubmit e s))"
    by (simp add: submit_sequence_suspended)
  then show "handleSubmit e' (ui (handleSubmit e s)) =
      \<lparr>ui = ui (handleSubmit e s), trace = [PreventDefault], returned = True\<rparr>"
    by (rule handleSubmit_guard)
next
  from handleSubmit_cases [of e s]
  show "length (filter is_contract_call (trace (handleSubmit e s))) \<le> 1"
    using submit_sequence_one_call by auto
qed

text \<open>
  C4 at a submission whose wallet prompt is never answered: the run is suspended after its
  one contract call with the flag set, and a second invocation on that state does nothing.
\<close>

theorem handleSubmit_in_flight_noop_witness:
  "\<not> returned (handleSubmit stalled_env sample_state)
   \<and> isSubmitting (ui (handleSubmit stalled_env sample_state))
   \<and> handleSubmit sample_env (ui (handleSubmit stalled_env sample_state)) =
       \<lparr>ui = ui (handleSubmit stalled_env sample_state), trace = [PreventDefault], returned = True\<rparr>
   \<and> length (filter is_contract_call (trace (handleSubmit stalled_env sample_state))) = 1"
proof -
  have suspended: "\<not> returned (handleSubmit stalled_env sample_state)"
    and flag: "isSubmitting (ui (handleSubmit stalled_env sample_state))"
    and once: "length (filter is_contract_call (trace (handleSubmit stalled_env sample_state))) = 1"
    by (simp_all add: handleSubmit_def sequence_defs sample_defs stalled_env_def silent_contract_def
        contract_call_def)
  from handleSubmit_in_flight_noop [of "ui (handleSubmit stalled_env sample_state)" sample_env] flag
  have guard: "handleSubmit sample_env (ui (handleSubmit stalled_env sample_state)) =
      \<lparr>ui = ui (handleSubmit stalled_env sample_state), trace = [PreventDefault], returned = True\<rparr>"
    by simp
  from handleSubmit_in_flight_noop [of sample_state stalled_env sample_env] suspended
  have "handleSubmit sample_env (ui (handleSubmit stalled_env sample_state)) =
      \<lparr>ui = ui (handleSubmit stalled_env sample_state), trace = [PreventDefault], returned = True\<rparr>"
    by simp
  with suspended flag once guard show ?thesis
    by simp
qed



text \<open>
  C6. The certificate hash passed to the contract is the hash of the serialised metadata
  document and of nothing else: two runs of the handler, on any two states and with any two
  sets of services that serialise and hash alike, pass the same hash whenever their metadata
  documents are the same.
\<close>

theorem certificateHash_deterministic:
  assumes "IssueCredential a1 h1 f1 m1 frm1 \<in> set (trace (handleSubmit e1 s1))"
    and "IssueCredential a2 h2 f2 m2 frm2 \<in> set (trace (handleSubmit e2 s2))"
    and "account e1 = Some acct1" and "account e2 = Some acct2"
    and "metadata_of e1 acct1 s1 = metadata_of e2 acct2 s2"
    and "JSON_stringify e1 = JSON_stringify e2" and "toUtf8Bytes e1 = toUtf8Bytes e2"
    and "keccak256 e1 = keccak256 e2"
  shows "h1 = h2 \<and> h1 = keccak256 e1 (toUtf8Bytes e1 (JSON_stringify e1 (metadata_of e1 acct1 s1)))"
  using assms
  by (auto simp: handleSubmit_def sequence_defs certificateHash_def
      split: if_splits option.splits outcome.splits)

text \<open>
  C6 at two runs on the sample form that differ in the answer of the storage client and
  in the preview shown.
\<close>

theorem certificateHash_deterministic_witness:
  "IssueCredential ''0xA1'' (certificateHash sample_env (metadata_of sample_env ''0xI'' sample_state))
      ''QmFile'' ''QmMeta'' ''0xI'' \<in> set (trace (handleSubmit sample_env sample_state))
   \<and> IssueCredential ''0xA1'' (certificateHash sample_env (metadata_of sample_env ''0xI'' sample_state))
      ''QmFile'' ''QmOther'' ''0xI''
      \<in> set (trace (handleSubmit (sample_env\<lparr>uploadJSON := (\<lambda>m. Resolved ''QmOther'')\<rparr>)
                      (sample_state\<lparr>imagePreview := Some ''data:''\<rparr>)))
   \<and> certificateHash sample_env (metadata_of sample_env ''0xI'' sample_state) =
       keccak256 sample_env (toUtf8Bytes sample_env
         (JSON_stringify sample_env (metadata_of sample_env ''0xI'' sample_state)))"
proof -
  let ?e = "sample_env\<lparr>uploadJSON := (\<lambda>m. Resolved ''QmOther'')\<rparr>"
  let ?s = "sample_state\<lparr>imagePreview := Some ''data:''\<rparr>"
  let ?h = "certificateHash sample_env (metadata_of sample_env ''0xI'' sample_state)"
  have first: "IssueCredential ''0xA1'' ?h ''QmFile'' ''QmMeta'' ''0xI''
      \<in> set (trace (handleSubmit sample_env sample_state))"
    by (simp add: sample_run)
  have second: "IssueCredential ''0xA1'' ?h ''QmFile'' ''QmOther'' ''0xI''
      \<in> set (trace (handleSubmit ?e ?s))"
    by (simp add: handleSubmit_def sequence_defs sample_defs contract_call_def certificateHash_def
        metadata_of_def)
  have wallet: "account ?e = Some ''0xI''"
    by (simp add: sample_env_fields)
  have same_doc: "metadata_of sample_env ''0xI'' sample_state = metadata_of ?e ''0xI'' ?s"
    by (simp add: metadata_of_def)
  have same_lib: "JSON_stringify sample_env = JSON_stringify ?e"
    "toUtf8Bytes sample_env = toUtf8Bytes ?e" "keccak256 sample_env = keccak256 ?e"
    by simp_all
  from certificateHash_deterministic [OF first second sample_env_fields(1) wallet same_doc same_lib]
    first second
  show ?thesis
    by simp
qed

text \<open>
  C8. A file above 10 MB is to be rejected before the upload. The handler checks the type
  of the file and never its size: the PNG image of 20 MiB is handed to the storage client,
  whatever the services and the state of the component.
\<close>

theorem handleFileChange_no_size_check:
  "10 * 1024 * 1024 < file_size sample_png
   \<and> UploadImage sample_png \<in> set (trace (handleFileChange e (Some sample_png) s))"
  by (simp add: handleFileChange_def sample_png_def validTypes_def startsWith_def Let_def
      split: outcome.splits)

text \<open>
  C9. When the upload of an accepted file is rejected, the run of the file-change handler
  changes nothing but the preview, which is cleared, and the uploading flag, which is
  reset: the form, and with it the hash and the URL of an earlier upload, is as before. A
  submission after it, with a wallet and a contract, and the earlier hash non-empty,
  therefore enters the submission sequence, with the earlier file hash in its metadata.
\<close>

theorem handleFileChange_upload_failure:
  assumes "file_type f \<in> set validTypes" and "uploadImage e f = Rejected msg"
  shows "ui (handleFileChange e (Some f) s) = s\<lparr>imagePreview := None, uploading := False\<rparr>
    \<and> formData (ui (handleFileChange e (Some f) s)) = formData s
    \<and> returned (handleFileChange e (Some f) s)
    \<and> (\<forall>acct c. \<not> isSubmitting s \<and> imageHash (formData s) \<noteq> [] \<and>
                account e' = Some acct \<and> acct \<noteq> [] \<and> contract e' = Some c \<longrightarrow>
          handleSubmit e' (ui (handleFileChange e (Some f) s)) =
            submit_sequence e' acct c (s\<lparr>imagePreview := None, uploading := False\<rparr>)
          \<and> md_imageHash (metadata_of e' acct (ui (handleFileChange e (Some f) s))) =
              imageHash (formData s))"
  using assms
  by (auto simp: handleFileChange_def reader_onloadend_def Let_def handleSubmit_def metadata_of_def
      split: option.splits)

text \<open>
  C9 at the sample form, which holds the hash of an earlier upload, with a storage client
  that rejects the new image after its preview was shown.
\<close>

theorem handleFileChange_upload_failure_witness:
  "file_type sample_png \<in> set validTypes
   \<and> ui (handleFileChange
         (sample_env\<lparr>uploadImage := (\<lambda>f. Rejected ''offline''), readerLoadEnd := (\<lambda>f. Some (Some ''data:''))\<rparr>)
         (Some sample_png) sample_state) = sample_state
   \<and> imageHash (formData (ui (handleFileChange
         (sample_env\<lparr>uploadImage := (\<lambda>f. Rejected ''offline''), readerLoadEnd := (\<lambda>f. Some (Some ''data:''))\<rparr>)
         (Some sample_png) sample_state))) = ''QmFile''
   \<and> handleSubmit sample_env (ui (handleFileChange
         (sample_env\<lparr>uploadImage := (\<lambda>f. Rejected ''offline''), readerLoadEnd := (\<lambda>f. Some (Some ''data:''))\<rparr>)
         (Some sample_png) sample_state)) = handleSubmit sample_env sample_state"
proof -
  let ?e = "sample_env\<lparr>uploadImage := (\<lambda>f. Rejected ''offline''),
      readerLoadEnd := (\<lambda>f. Some (Some ''data:''))\<rparr>"
  have accepted: "file_type sample_png \<in> set validTypes"
    by (simp add: sample_png_def validTypes_def)
  have rejected: "uploadImage ?e sample_png = Rejected ''offline''"
    by simp
  have same: "sample_state\<lparr>imagePreview := None, uploading := False\<rparr> = sample_state"
    by (simp add: sample_state_def)
  have hash: "imageHash (formData sample_state) = ''QmFile''"
    by (simp add: sample_state_def sample_form_def)
  from handleFileChange_upload_failure [OF accepted rejected, of sample_state sample_env]
    accepted same hash
  show ?thesis
    by simp
qed




end
